theory Spec2Isabelle
  imports Main "HOL-Library.Word" "HOL-Library.Sublist"
begin

section \<open>JavaScript values\<close>

text \<open>
  The client is one Vue component, \<^verbatim>\<open>static/js/app.js\<close>. The file holds two variants
  of the component: the first (lines 1 to 363) has image inputs, the second (lines 364
  to 622) sends the prompt alone. \<^verbatim>\<open>loadTasks\<close>, \<^verbatim>\<open>buildParameterString\<close>,
  \<^verbatim>\<open>deleteTask\<close>, \<^verbatim>\<open>checkSettings\<close> and \<^verbatim>\<open>saveSettings\<close> are the same text in
  both; \<^verbatim>\<open>createTask\<close> differs and is modelled twice.

  A JavaScript string is a sequence of 16-bit code units.
\<close>

type_synonym jsstring = "16 word list"

definition ascii :: "string \<Rightarrow> jsstring" where
  "ascii s = map of_char s"

text \<open>
  \<^verbatim>\<open>String.prototype.trim\<close> removes the code units of ECMAScript's WhiteSpace and
  LineTerminator productions from both ends.
\<close>

definition is_ws :: "16 word \<Rightarrow> bool" where
  "is_ws c = (c \<in> set [0x0009, 0x000A, 0x000B, 0x000C, 0x000D, 0x0020, 0x00A0, 0x1680,
     0x2000, 0x2001, 0x2002, 0x2003, 0x2004, 0x2005, 0x2006, 0x2007, 0x2008, 0x2009, 0x200A,
     0x2028, 0x2029, 0x202F, 0x205F, 0x3000, 0xFEFF])"

definition trim :: "jsstring \<Rightarrow> jsstring" where
  "trim s = rev (dropWhile is_ws (rev (dropWhile is_ws s)))"

text \<open>
  The values the component holds and receives. \<open>JNum n\<close> is the number whose value is
  the integer \<open>n\<close> (a safe integer, which prints as its decimal digits); fractions, NaN
  and the infinities are not modelled. \<open>JObj\<close> lists an object's own properties, each
  name once.
\<close>

datatype jsval =
    JUndefined
  | JNull
  | JBool bool
  | JNum int
  | JStr jsstring
  | JArr "jsval list"
  | JObj "(jsstring \<times> jsval) list"

text \<open>ToBoolean, as \<^verbatim>\<open>if (x)\<close>, \<^verbatim>\<open>!x\<close>, \<^verbatim>\<open>x ? a : b\<close> and \<^verbatim>\<open>x || y\<close> apply it.\<close>

fun truthy :: "jsval \<Rightarrow> bool" where
  "truthy JUndefined = False"
| "truthy JNull = False"
| "truthy (JBool b) = b"
| "truthy (JNum n) = (n \<noteq> 0)"
| "truthy (JStr s) = (s \<noteq> [])"
| "truthy (JArr xs) = True"
| "truthy (JObj kvs) = True"

definition js_or :: "jsval \<Rightarrow> jsval \<Rightarrow> jsval" where
  "js_or a b = (if truthy a then a else b)"

fun digits :: "nat \<Rightarrow> jsstring" where
  "digits n = (if n < 10 then [48 + of_nat n] else digits (n div 10) @ [48 + of_nat (n mod 10)])"

declare digits.simps [simp del]

definition number_to_string :: "int \<Rightarrow> jsstring" where
  "number_to_string n = (if n < 0 then ascii ''-'' @ digits (nat (- n)) else digits (nat n))"

text \<open>\<^verbatim>\<open>Array.prototype.join\<close> on an array of strings.\<close>

fun join :: "jsstring \<Rightarrow> jsstring list \<Rightarrow> jsstring" where
  "join sep [] = []"
| "join sep [x] = x"
| "join sep (x # y # ys) = x @ sep @ join sep (y # ys)"

text \<open>
  ToString, as a template literal \<^verbatim>\<open>${x}\<close> applies it. An array prints its elements
  joined by commas, with null and undefined elements printed as the empty string.
\<close>

fun to_string :: "jsval \<Rightarrow> jsstring" where
  "to_string JUndefined = ascii ''undefined''"
| "to_string JNull = ascii ''null''"
| "to_string (JBool b) = (if b then ascii ''true'' else ascii ''false'')"
| "to_string (JNum n) = number_to_string n"
| "to_string (JStr s) = s"
| "to_string (JArr xs) =
     join (ascii '','')
       (map (\<lambda>x. if x = JNull \<or> x = JUndefined then [] else to_string x) xs)"
| "to_string (JObj kvs) = ascii ''[object Object]''"

section \<open>The component's data\<close>

text \<open>
  \<^verbatim>\<open>data()\<close>. The draft \<^verbatim>\<open>newTask\<close> of the second variant has six fields; the first
  variant adds the image fields. \<^verbatim>\<open>prompt\<close> and \<^verbatim>\<open>apiKey\<close> are bound to text
  inputs and are strings; the other fields of the draft hold whatever the form puts
  there.
\<close>

record draft =
  prompt :: jsstring
  ratio :: jsval
  duration :: jsval
  resolution :: jsval
  seed :: jsval
  camera_fixed :: jsval

record ref_image =
  url :: jsval

record image_draft = draft +
  imageMode :: jsval
  images :: "jsval list"
  referenceImages :: "ref_image list"

record 'd app =
  tasks :: jsval
  newTask :: 'd
  showSettings :: bool
  apiKey :: jsstring
  apiKeyConfigured :: jsval
  previewTaskId :: jsval
  polling :: "nat option"
  isCreating :: bool

record 'd image_app = "'d app" +
  imageInputModes :: "jsstring list"
  imagePreviews :: "jsval list"
  refImageInputModes :: "jsstring list"
  refImagePreviews :: "jsval list"

definition default_draft :: draft where
  "default_draft =
     \<lparr>prompt = [], ratio = JStr (ascii ''16:9''), duration = JNum 5,
      resolution = JStr (ascii ''720p''), seed = JNull, camera_fixed = JBool False\<rparr>"

definition default_image_draft :: image_draft where
  "default_image_draft =
     \<lparr>prompt = [], ratio = JStr (ascii ''16:9''), duration = JNum 5,
      resolution = JStr (ascii ''720p''), seed = JNull, camera_fixed = JBool False,
      imageMode = JStr (ascii ''none''), images = [JNull, JNull],
      referenceImages = [\<lparr>url = JNull\<rparr>]\<rparr>"

definition data_v2 :: "draft app" where
  "data_v2 =
     \<lparr>tasks = JArr [], newTask = default_draft, showSettings = False, apiKey = [],
      apiKeyConfigured = JBool False, previewTaskId = JNull, polling = None,
      isCreating = False\<rparr>"

definition data_v1 :: "image_draft image_app" where
  "data_v1 =
     \<lparr>tasks = JArr [], newTask = default_image_draft, showSettings = False, apiKey = [],
      apiKeyConfigured = JBool False, previewTaskId = JNull, polling = None,
      isCreating = False, imageInputModes = [ascii ''url'', ascii ''url''],
      imagePreviews = [JNull, JNull], refImageInputModes = [ascii ''url''],
      refImagePreviews = [JNull]\<rparr>"

section \<open>buildParameterString\<close>

definition push :: "'a list \<Rightarrow> 'a \<Rightarrow> 'a list" where
  "push xs x = xs @ [x]"

text \<open>The array \<^verbatim>\<open>params\<close> as it stands when \<^verbatim>\<open>buildParameterString\<close> joins it.\<close>

definition params :: "('m draft_scheme, 'z) app_scheme \<Rightarrow> jsstring list" where
  "params this =
     (let ps = [];
          ps = (if truthy (ratio (newTask this))
                then push ps (ascii ''--rt '' @ to_string (ratio (newTask this))) else ps);
          ps = (if truthy (duration (newTask this))
                then push ps (ascii ''--dur '' @ to_string (duration (newTask this))) else ps);
          ps = push ps (ascii ''--fps 24'');
          ps = (if truthy (resolution (newTask this))
                then push ps (ascii ''--rs '' @ to_string (resolution (newTask this))) else ps);
          ps = (if seed (newTask this) \<noteq> JNull \<and> seed (newTask this) \<noteq> JStr []
                then push ps (ascii ''--seed '' @ to_string (seed (newTask this))) else ps);
          ps = push ps (ascii ''--cf '' @
                 (if truthy (camera_fixed (newTask this)) then ascii ''true'' else ascii ''false''))
      in ps)"

definition buildParameterString :: "('m draft_scheme, 'z) app_scheme \<Rightarrow> jsstring" where
  "buildParameterString this = join (ascii '' '') (params this)"

text \<open>The flag of a token: its code units up to the first space.\<close>

definition flag_of :: "jsstring \<Rightarrow> jsstring" where
  "flag_of t = takeWhile (\<lambda>c. c \<noteq> 0x20) t"

text \<open>The order of the flags that the specification fixes.\<close>

definition flag_order :: "jsstring list" where
  "flag_order =
     [ascii ''--rt'', ascii ''--dur'', ascii ''--fps'', ascii ''--rs'', ascii ''--seed'',
      ascii ''--cf'']"

section \<open>Requests, notifications and errors\<close>

text \<open>
  What axios hands back: a request settles, either resolved with a response object whose
  \<^verbatim>\<open>data\<close> is the parsed body (any value the backend sent), or rejected with an error
  object that has a \<^verbatim>\<open>message\<close> and, when the backend answered, a \<^verbatim>\<open>response\<close>.
  The settled requests are arguments of the operations, in the order the operation awaits
  them. An operation runs from its call to its return with no other handler in between.
\<close>

record axios_response =
  data :: jsval

record axios_error =
  response :: "axios_response option"
  message :: jsstring

datatype settled = Resolved axios_response | Rejected axios_error

text \<open>What a \<^verbatim>\<open>catch\<close> clause can receive: a rejected request, or the TypeError of
  reading a property (second argument) of null or undefined (first argument).\<close>

datatype exn = AxiosError axios_error | TypeError jsval jsstring

datatype request = Get jsstring | Post jsstring jsval | Delete jsstring

text \<open>
  The literal texts of the source, which are Chinese, by what they say:
  \<open>LoadFailed\<close>, \<open>CreateFailed\<close>, \<open>DeleteFailed\<close> and \<open>SaveFailed\<close> are the
  prefixes of the four failure toasts, \<open>EnterPrompt\<close>, \<open>ConfigureApiKey\<close> and
  \<open>EnterApiKey\<close> the three validation messages, \<open>TaskCreated\<close>, \<open>TaskDeleted\<close>
  and \<open>SettingsSaved\<close> the success messages, \<open>ConfirmDelete\<close> and \<open>ConfirmReload\<close>
  the questions of the two \<^verbatim>\<open>confirm\<close> dialogs, and the \<open>Log\<close> texts the first
  arguments of the five \<^verbatim>\<open>console.error\<close> calls.
\<close>

datatype literal =
    LoadFailed | EnterPrompt | ConfigureApiKey | CreateFailed | TaskCreated
  | ConfirmDelete | DeleteFailed | TaskDeleted | EnterApiKey | ConfirmReload
  | SettingsSaved | SaveFailed
  | LogLoad | LogCreate | LogDelete | LogCheck | LogSave

text \<open>A message is a literal, or a literal with a value appended by \<^verbatim>\<open>+\<close>.\<close>

datatype message = Lit literal | LitPlus literal jsval

datatype toast_kind = Success | Failure

datatype callback = RemoveToast | OpenSettings

datatype event =
    Request request
  | ConsoleError literal exn
  | Toast toast_kind message
  | SetTimeout callback nat
  | Confirm literal
  | Reload

text \<open>
  The run of an operation: the component when it returns, what it did in order, and
  the exception it let through to its caller, if any (the promise of an \<^verbatim>\<open>async\<close>
  method is then rejected).
\<close>

record 's run =
  final :: 's
  trace :: "event list"
  raised :: "exn option"

text \<open>
  Reading the property \<open>p\<close> of a value. The names this program reads from a body
  (\<^verbatim>\<open>tasks\<close>, \<^verbatim>\<open>error\<close>, \<^verbatim>\<open>api_key_configured\<close>) are own properties of objects
  only: on an array, a string, a number or a boolean the read gives undefined, and on
  null and undefined it throws.
\<close>

fun get_prop :: "jsval \<Rightarrow> jsstring \<Rightarrow> exn + jsval" where
  "get_prop JUndefined p = Inl (TypeError JUndefined p)"
| "get_prop JNull p = Inl (TypeError JNull p)"
| "get_prop (JObj kvs) p = Inr (case map_of kvs p of None \<Rightarrow> JUndefined | Some v \<Rightarrow> v)"
| "get_prop v p = Inr JUndefined"

text \<open>An array element; out of range it is undefined.\<close>

definition element :: "jsval list \<Rightarrow> nat \<Rightarrow> jsval" where
  "element xs i = (if i < length xs then xs ! i else JUndefined)"

text \<open>\<^verbatim>\<open>error.response?.data?.error\<close>: undefined as soon as a link is missing.\<close>

definition response_error :: "exn \<Rightarrow> jsval" where
  "response_error error =
     (case error of
        TypeError v p \<Rightarrow> JUndefined
      | AxiosError e \<Rightarrow>
          (case response e of
             None \<Rightarrow> JUndefined
           | Some r \<Rightarrow>
               (case get_prop (data r) (ascii ''error'') of
                  Inl _ \<Rightarrow> JUndefined
                | Inr v \<Rightarrow> v)))"

text \<open>\<^verbatim>\<open>error.message\<close>; a TypeError's text is the engine's, here V8's.\<close>

definition error_message :: "exn \<Rightarrow> jsval" where
  "error_message error =
     (case error of
        AxiosError e \<Rightarrow> JStr (message e)
      | TypeError v p \<Rightarrow>
          JStr (ascii ''Cannot read properties of '' @ to_string v @ ascii '' (reading '' @
                [0x27] @ p @ [0x27, 0x29]))"

definition error_detail :: "exn \<Rightarrow> jsval" where
  "error_detail error = js_or (response_error error) (error_message error)"

text \<open>The two toasts: a node appended to the page and a timer that removes it.\<close>

definition showSuccess :: "message \<Rightarrow> event list" where
  "showSuccess m = [Toast Success m, SetTimeout RemoveToast 3000]"

definition showError :: "message \<Rightarrow> event list" where
  "showError m = [Toast Failure m, SetTimeout RemoveToast 5000]"

section \<open>The methods\<close>

subsection \<open>loadTasks\<close>

definition loadTasks_try ::
  "settled \<Rightarrow> ('d, 'z) app_scheme \<Rightarrow> ('d, 'z) app_scheme run" where
  "loadTasks_try got this =
     (let asked = [Request (Get (ascii ''/api/tasks''))] in
      case got of
        Rejected e \<Rightarrow> \<lparr>final = this, trace = asked, raised = Some (AxiosError e)\<rparr>
      | Resolved resp \<Rightarrow>
          (case get_prop (data resp) (ascii ''tasks'') of
             Inl err \<Rightarrow> \<lparr>final = this, trace = asked, raised = Some err\<rparr>
           | Inr v \<Rightarrow>
               \<lparr>final = this\<lparr>tasks := js_or v (JArr [])\<rparr>, trace = asked, raised = None\<rparr>))"

definition loadTasks ::
  "settled \<Rightarrow> ('d, 'z) app_scheme \<Rightarrow> ('d, 'z) app_scheme run" where
  "loadTasks got this =
     (let r = loadTasks_try got this in
      case raised r of
        None \<Rightarrow> r
      | Some error \<Rightarrow>
          \<lparr>final = final r,
           trace = trace r @ [ConsoleError LogLoad error] @
                   showError (LitPlus LoadFailed (error_detail error)),
           raised = None\<rparr>)"

subsection \<open>createTask, second variant (lines 443 to 485)\<close>

definition createTask_v2_try ::
  "settled \<Rightarrow> settled \<Rightarrow> draft app \<Rightarrow> draft app run" where
  "createTask_v2_try posted got this =
     (let paramString = buildParameterString this;
          fullPrompt = trim (prompt (newTask this)) @ ascii '' '' @ paramString;
          asked = [Request (Post (ascii ''/api/tasks'') (JObj [(ascii ''prompt'', JStr fullPrompt)]))]
      in
      case posted of
        Rejected e \<Rightarrow> \<lparr>final = this, trace = asked, raised = Some (AxiosError e)\<rparr>
      | Resolved resp \<Rightarrow>
          (let this = this\<lparr>newTask := (newTask this)\<lparr>prompt := []\<rparr>\<rparr>;
               this = this\<lparr>newTask := (newTask this)\<lparr>ratio := JStr (ascii ''16:9'')\<rparr>\<rparr>;
               this = this\<lparr>newTask := (newTask this)\<lparr>duration := JNum 5\<rparr>\<rparr>;
               this = this\<lparr>newTask := (newTask this)\<lparr>resolution := JStr (ascii ''720p'')\<rparr>\<rparr>;
               this = this\<lparr>newTask := (newTask this)\<lparr>seed := JNull\<rparr>\<rparr>;
               this = this\<lparr>newTask := (newTask this)\<lparr>camera_fixed := JBool False\<rparr>\<rparr>;
               r = loadTasks got this
           in
           case raised r of
             Some err \<Rightarrow> \<lparr>final = final r, trace = asked @ trace r, raised = Some err\<rparr>
           | None \<Rightarrow>
               \<lparr>final = final r, trace = asked @ trace r @ showSuccess (Lit TaskCreated),
                raised = None\<rparr>))"

definition createTask_v2 ::
  "settled \<Rightarrow> settled \<Rightarrow> draft app \<Rightarrow> draft app run" where
  "createTask_v2 posted got this =
     (if trim (prompt (newTask this)) = [] then
        \<lparr>final = this, trace = showError (Lit EnterPrompt), raised = None\<rparr>
      else if \<not> truthy (apiKeyConfigured this) then
        \<lparr>final = this\<lparr>showSettings := True\<rparr>, trace = showError (Lit ConfigureApiKey),
         raised = None\<rparr>
      else
        (let r = createTask_v2_try posted got (this\<lparr>isCreating := True\<rparr>);
             c = (case raised r of
                    None \<Rightarrow> r
                  | Some error \<Rightarrow>
                      \<lparr>final = final r,
                       trace = trace r @ [ConsoleError LogCreate error] @
                               showError (LitPlus CreateFailed (error_detail error)),
                       raised = None\<rparr>)
         in c\<lparr>final := (final c)\<lparr>isCreating := False\<rparr>\<rparr>))"

subsection \<open>createTask, first variant (lines 148 to 226)\<close>

definition image_object :: "jsval \<Rightarrow> string \<Rightarrow> jsval" where
  "image_object u role = JObj [(ascii ''url'', u), (ascii ''role'', JStr (ascii role))]"

definition requestData :: "image_draft image_app \<Rightarrow> jsstring \<Rightarrow> (jsstring \<times> jsval) list" where
  "requestData this fullPrompt =
     (let rd = [(ascii ''prompt'', JStr fullPrompt),
                (ascii ''imageMode'', imageMode (newTask this))]
      in
      if imageMode (newTask this) = JStr (ascii ''first_frame'') then
        (if truthy (element (images (newTask this)) 0)
         then rd @ [(ascii ''images'',
                     JArr [image_object (element (images (newTask this)) 0) ''first_frame''])]
         else rd)
      else if imageMode (newTask this) = JStr (ascii ''first_last_frame'') then
        (let imgs = [];
             imgs = (if truthy (element (images (newTask this)) 0)
                     then push imgs (image_object (element (images (newTask this)) 0) ''first_frame'')
                     else imgs);
             imgs = (if truthy (element (images (newTask this)) 1)
                     then push imgs (image_object (element (images (newTask this)) 1) ''last_frame'')
                     else imgs)
         in if length imgs > 0 then rd @ [(ascii ''images'', JArr imgs)] else rd)
      else if imageMode (newTask this) = JStr (ascii ''reference'') then
        (let imgs = map (\<lambda>img. image_object (url img) ''reference_image'')
                      (filter (\<lambda>img. truthy (url img)) (referenceImages (newTask this)))
         in if length imgs > 0 then rd @ [(ascii ''images'', JArr imgs)] else rd)
      else rd)"

definition createTask_v1_try ::
  "settled \<Rightarrow> settled \<Rightarrow> image_draft image_app \<Rightarrow> image_draft image_app run" where
  "createTask_v1_try posted got this =
     (let paramString = buildParameterString this;
          fullPrompt = trim (prompt (newTask this)) @ ascii '' '' @ paramString;
          asked = [Request (Post (ascii ''/api/tasks'') (JObj (requestData this fullPrompt)))]
      in
      case posted of
        Rejected e \<Rightarrow> \<lparr>final = this, trace = asked, raised = Some (AxiosError e)\<rparr>
      | Resolved resp \<Rightarrow>
          (let this = this\<lparr>newTask := (newTask this)\<lparr>prompt := []\<rparr>\<rparr>;
               this = this\<lparr>newTask := (newTask this)\<lparr>imageMode := JStr (ascii ''none'')\<rparr>\<rparr>;
               this = this\<lparr>newTask := (newTask this)\<lparr>images := [JNull, JNull]\<rparr>\<rparr>;
               this = this\<lparr>newTask := (newTask this)\<lparr>referenceImages := [\<lparr>url = JNull\<rparr>]\<rparr>\<rparr>;
               this = this\<lparr>newTask := (newTask this)\<lparr>ratio := JStr (ascii ''16:9'')\<rparr>\<rparr>;
               this = this\<lparr>newTask := (newTask this)\<lparr>duration := JNum 5\<rparr>\<rparr>;
               this = this\<lparr>newTask := (newTask this)\<lparr>resolution := JStr (ascii ''720p'')\<rparr>\<rparr>;
               this = this\<lparr>newTask := (newTask this)\<lparr>seed := JNull\<rparr>\<rparr>;
               this = this\<lparr>newTask := (newTask this)\<lparr>camera_fixed := JBool False\<rparr>\<rparr>;
               this = this\<lparr>imageInputModes := [ascii ''url'', ascii ''url'']\<rparr>;
               this = this\<lparr>imagePreviews := [JNull, JNull]\<rparr>;
               this = this\<lparr>refImageInputModes := [ascii ''url'']\<rparr>;
               this = this\<lparr>refImagePreviews := [JNull]\<rparr>;
               r = loadTasks got this
           in
           case raised r of
             Some err \<Rightarrow> \<lparr>final = final r, trace = asked @ trace r, raised = Some err\<rparr>
           | None \<Rightarrow>
               \<lparr>final = final r, trace = asked @ trace r @ showSuccess (Lit TaskCreated),
                raised = None\<rparr>))"

definition createTask_v1 ::
  "settled \<Rightarrow> settled \<Rightarrow> image_draft image_app \<Rightarrow> image_draft image_app run" where
  "createTask_v1 posted got this =
     (if trim (prompt (newTask this)) = [] then
        \<lparr>final = this, trace = showError (Lit EnterPrompt), raised = None\<rparr>
      else if \<not> truthy (apiKeyConfigured this) then
        \<lparr>final = this\<lparr>showSettings := True\<rparr>, trace = showError (Lit ConfigureApiKey),
         raised = None\<rparr>
      else
        (let r = createTask_v1_try posted got (this\<lparr>isCreating := True\<rparr>);
             c = (case raised r of
                    None \<Rightarrow> r
                  | Some error \<Rightarrow>
                      \<lparr>final = final r,
                       trace = trace r @ [ConsoleError LogCreate error] @
                               showError (LitPlus CreateFailed (error_detail error)),
                       raised = None\<rparr>)
         in c\<lparr>final := (final c)\<lparr>isCreating := False\<rparr>\<rparr>))"

subsection \<open>deleteTask\<close>

text \<open>\<open>confirmed\<close> is the user's answer to the \<^verbatim>\<open>confirm\<close> dialog.\<close>

definition deleteTask_try ::
  "settled \<Rightarrow> settled \<Rightarrow> jsval \<Rightarrow> ('d, 'z) app_scheme \<Rightarrow> ('d, 'z) app_scheme run" where
  "deleteTask_try deleted got taskId this =
     (let asked = [Request (Delete (ascii ''/api/tasks/'' @ to_string taskId))] in
      case deleted of
        Rejected e \<Rightarrow> \<lparr>final = this, trace = asked, raised = Some (AxiosError e)\<rparr>
      | Resolved resp \<Rightarrow>
          (let r = loadTasks got this in
           case raised r of
             Some err \<Rightarrow> \<lparr>final = final r, trace = asked @ trace r, raised = Some err\<rparr>
           | None \<Rightarrow>
               \<lparr>final = final r, trace = asked @ trace r @ showSuccess (Lit TaskDeleted),
                raised = None\<rparr>))"

definition deleteTask ::
  "bool \<Rightarrow> settled \<Rightarrow> settled \<Rightarrow> jsval \<Rightarrow> ('d, 'z) app_scheme \<Rightarrow> ('d, 'z) app_scheme run"
  where
  "deleteTask confirmed deleted got taskId this =
     (if \<not> confirmed then \<lparr>final = this, trace = [Confirm ConfirmDelete], raised = None\<rparr>
      else
        (let r = deleteTask_try deleted got taskId this in
         case raised r of
           None \<Rightarrow> r\<lparr>trace := Confirm ConfirmDelete # trace r\<rparr>
         | Some error \<Rightarrow>
             \<lparr>final = final r,
              trace = Confirm ConfirmDelete # trace r @ [ConsoleError LogDelete error] @
                      showError (LitPlus DeleteFailed (error_detail error)),
              raised = None\<rparr>))"

subsection \<open>checkSettings\<close>

definition checkSettings_try ::
  "settled \<Rightarrow> ('d, 'z) app_scheme \<Rightarrow> ('d, 'z) app_scheme run" where
  "checkSettings_try got this =
     (let asked = [Request (Get (ascii ''/api/settings''))] in
      case got of
        Rejected e \<Rightarrow> \<lparr>final = this, trace = asked, raised = Some (AxiosError e)\<rparr>
      | Resolved resp \<Rightarrow>
          (case get_prop (data resp) (ascii ''api_key_configured'') of
             Inl err \<Rightarrow> \<lparr>final = this, trace = asked, raised = Some err\<rparr>
           | Inr v \<Rightarrow>
               (let this = this\<lparr>apiKeyConfigured := js_or v (JBool False)\<rparr> in
                if \<not> truthy (apiKeyConfigured this)
                then \<lparr>final = this, trace = asked @ [SetTimeout OpenSettings 1000], raised = None\<rparr>
                else \<lparr>final = this, trace = asked, raised = None\<rparr>)))"

definition checkSettings ::
  "settled \<Rightarrow> ('d, 'z) app_scheme \<Rightarrow> ('d, 'z) app_scheme run" where
  "checkSettings got this =
     (let r = checkSettings_try got this in
      case raised r of
        None \<Rightarrow> r
      | Some error \<Rightarrow>
          \<lparr>final = final r, trace = trace r @ [ConsoleError LogCheck error], raised = None\<rparr>)"

subsection \<open>saveSettings\<close>

text \<open>\<open>reload\<close> is the user's answer to the dialog that offers to reload the page.\<close>

definition saveSettings_try ::
  "settled \<Rightarrow> bool \<Rightarrow> ('d, 'z) app_scheme \<Rightarrow> ('d, 'z) app_scheme run" where
  "saveSettings_try posted reload this =
     (let asked = [Request (Post (ascii ''/api/settings'')
                     (JObj [(ascii ''api_key'', JStr (apiKey this))]))]
      in
      case posted of
        Rejected e \<Rightarrow> \<lparr>final = this, trace = asked, raised = Some (AxiosError e)\<rparr>
      | Resolved resp \<Rightarrow>
          (let this = this\<lparr>showSettings := False\<rparr>;
               this = this\<lparr>apiKey := []\<rparr>;
               this = this\<lparr>apiKeyConfigured := JBool True\<rparr>
           in
           if reload
           then \<lparr>final = this, trace = asked @ [Confirm ConfirmReload, Reload], raised = None\<rparr>
           else \<lparr>final = this,
                 trace = asked @ [Confirm ConfirmReload] @ showSuccess (Lit SettingsSaved),
                 raised = None\<rparr>))"

definition saveSettings ::
  "settled \<Rightarrow> bool \<Rightarrow> ('d, 'z) app_scheme \<Rightarrow> ('d, 'z) app_scheme run" where
  "saveSettings posted reload this =
     (if trim (apiKey this) = [] then
        \<lparr>final = this, trace = showError (Lit EnterApiKey), raised = None\<rparr>
      else
        (let r = saveSettings_try posted reload this in
         case raised r of
           None \<Rightarrow> r
         | Some error \<Rightarrow>
             \<lparr>final = final r,
              trace = trace r @ [ConsoleError LogSave error] @
                      showError (LitPlus SaveFailed (error_detail error)),
              raised = None\<rparr>))"

subsection \<open>Reading a run\<close>

definition requests :: "event list \<Rightarrow> request list" where
  "requests evs = concat (map (\<lambda>ev. case ev of Request q \<Rightarrow> [q] | _ \<Rightarrow> []) evs)"

definition toasts :: "toast_kind \<Rightarrow> event list \<Rightarrow> message list" where
  "toasts k evs =
     concat (map (\<lambda>ev. case ev of Toast k' m \<Rightarrow> (if k' = k then [m] else []) | _ \<Rightarrow> []) evs)"

text \<open>The \<^verbatim>\<open>prompt\<close> fields of the bodies posted to \<^verbatim>\<open>/api/tasks\<close>.\<close>

definition prompt_of :: "request \<Rightarrow> jsval list" where
  "prompt_of q =
     (case q of
        Post u body \<Rightarrow>
          (if u = ascii ''/api/tasks''
           then (case get_prop body (ascii ''prompt'') of Inr v \<Rightarrow> [v] | Inl _ \<Rightarrow> [])
           else [])
      | _ \<Rightarrow> [])"

definition submitted_prompts :: "event list \<Rightarrow> jsval list" where
  "submitted_prompts evs = concat (map prompt_of (requests evs))"

definition blank :: "jsstring \<Rightarrow> bool" where
  "blank s = list_all is_ws s"

subsection \<open>Sample inputs\<close>

text \<open>
  A component of each variant with a prompt that has spaces around it, a configured key
  and one cached task; an error with no response (the backend was not reached) and one
  that carries the backend's own message; a task list as the backend sends it.
\<close>

definition one_task :: jsval where
  "one_task = JArr [JObj [(ascii ''id'', JStr (ascii ''t1'')),
                          (ascii ''status'', JStr (ascii ''pending''))]]"

definition sample_v2 :: "draft app" where
  "sample_v2 =
     data_v2\<lparr>tasks := one_task,
             newTask := default_draft\<lparr>prompt := ascii '' a cat '', seed := JNum 7\<rparr>,
             apiKey := ascii ''k1'',
             apiKeyConfigured := JBool True\<rparr>"

definition sample_v1 :: "image_draft image_app" where
  "sample_v1 =
     data_v1\<lparr>tasks := one_task,
             newTask := default_image_draft\<lparr>prompt := ascii '' a cat '', seed := JNum 7\<rparr>,
             apiKey := ascii ''k1'',
             apiKeyConfigured := JBool True\<rparr>"

definition blank_v1 :: "image_draft image_app" where
  "blank_v1 = sample_v1\<lparr>newTask := (newTask sample_v1)\<lparr>prompt := [0x20, 0x3000, 0x0A]\<rparr>\<rparr>"

definition network_error :: axios_error where
  "network_error = \<lparr>response = None, message = ascii ''Network Error''\<rparr>"

definition backend_error :: axios_error where
  "backend_error =
     \<lparr>response = Some \<lparr>data = JObj [(ascii ''error'', JStr (ascii ''quota''))]\<rparr>,
      message = ascii ''Request failed with status code 500''\<rparr>"

definition two_tasks :: axios_response where
  "two_tasks =
     \<lparr>data = JObj [(ascii ''tasks'',
                    JArr [JObj [(ascii ''id'', JStr (ascii ''t1''))],
                          JObj [(ascii ''id'', JStr (ascii ''t2''))]])]\<rparr>"

definition no_content :: axios_response where
  "no_content = \<lparr>data = JObj []\<rparr>"

section \<open>Properties of the parameter string\<close>

text \<open>
  C8: the draft with ratio 9:16, duration 3, resolution 1080p, no seed and a fixed camera
  gives exactly \<^verbatim>\<open>--rt 9:16 --dur 3 --fps 24 --rs 1080p --cf true\<close>, whatever the
  prompt, the image fields of the first variant (\<open>more\<close>) and the rest of the
  component are.
\<close>

theorem buildParameterString_example:
  "buildParameterString
     (this\<lparr>newTask := \<lparr>prompt = p, ratio = JStr (ascii ''9:16''), duration = JNum 3,
        resolution = JStr (ascii ''1080p''), seed = JNull, camera_fixed = JBool True,
        \<dots> = more\<rparr>\<rparr>)
   = ascii ''--rt 9:16 --dur 3 --fps 24 --rs 1080p --cf true''"
  by (simp add: buildParameterString_def params_def push_def number_to_string_def digits.simps
      ascii_def)


lemma sublist_join: "t \<in> set ps \<Longrightarrow> sublist t (join sep ps)"
proof (induction sep ps rule: join.induct)
  case (3 sep x y ys)
  show ?case
  proof (cases "t = x")
    case True
    then show ?thesis by (simp add: sublist_append_rightI)
  next
    case False
    with 3 have "sublist t (join sep (y # ys))" by simp
    then obtain us vs where "join sep (y # ys) = us @ t @ vs"
      by (auto simp: sublist_def)
    then have "join sep (x # y # ys) = (x @ sep @ us) @ t @ vs" by simp
    then show ?thesis unfolding sublist_def by blast
  qed
qed simp_all

lemma suffix_join: "ps \<noteq> [] \<Longrightarrow> suffix (last ps) (join sep ps)"
proof (induction sep ps rule: join.induct)
  case (3 sep x y ys)
  then have "suffix (last (y # ys)) (join sep (y # ys))" by simp
  then show ?case by (simp add: suffix_appendI)
qed simp_all

lemma flag_of_simps:
  "flag_of (ascii ''--rt '' @ a) = ascii ''--rt''"
  "flag_of (ascii ''--dur '' @ a) = ascii ''--dur''"
  "flag_of (ascii ''--fps 24'') = ascii ''--fps''"
  "flag_of (ascii ''--rs '' @ a) = ascii ''--rs''"
  "flag_of (ascii ''--seed '' @ a) = ascii ''--seed''"
  "flag_of (ascii ''--cf '' @ a) = ascii ''--cf''"
  by (simp_all add: flag_of_def ascii_def)

text \<open>The pushes of \<open>params\<close>, read off as one list.\<close>

lemma params_eq:
  "params this =
     (if truthy (ratio (newTask this))
      then [ascii ''--rt '' @ to_string (ratio (newTask this))] else []) @
     (if truthy (duration (newTask this))
      then [ascii ''--dur '' @ to_string (duration (newTask this))] else []) @
     [ascii ''--fps 24''] @
     (if truthy (resolution (newTask this))
      then [ascii ''--rs '' @ to_string (resolution (newTask this))] else []) @
     (if seed (newTask this) \<noteq> JNull \<and> seed (newTask this) \<noteq> JStr []
      then [ascii ''--seed '' @ to_string (seed (newTask this))] else []) @
     [ascii ''--cf '' @
        (if truthy (camera_fixed (newTask this)) then ascii ''true'' else ascii ''false'')]"
  by (simp add: params_def push_def Let_def)

lemma params_flags:
  "map flag_of (params this) =
     (if truthy (ratio (newTask this)) then [ascii ''--rt''] else []) @
     (if truthy (duration (newTask this)) then [ascii ''--dur''] else []) @
     [ascii ''--fps''] @
     (if truthy (resolution (newTask this)) then [ascii ''--rs''] else []) @
     (if seed (newTask this) \<noteq> JNull \<and> seed (newTask this) \<noteq> JStr []
      then [ascii ''--seed''] else []) @
     [ascii ''--cf'']"
  unfolding params_eq by (simp add: flag_of_simps)

lemma subseq_optional:
  "subseq ((if a then [x1] else []) @ (if b then [x2] else []) @ [x3] @
           (if c then [x4] else []) @ (if d then [x5] else []) @ [x6])
          [x1, x2, x3, x4, x5, x6]"
  by (cases a; cases b; cases c; cases d) (auto intro: subseq_Cons')

lemma params_order: "subseq (map flag_of (params this)) flag_order"
  unfolding params_flags flag_order_def by (rule subseq_optional)

lemma params_seed_flag:
  "(ascii ''--seed'' \<in> set (map flag_of (params this))) =
   (seed (newTask this) \<noteq> JNull \<and> seed (newTask this) \<noteq> JStr [])"
  unfolding params_flags by (simp add: ascii_def)

lemma params_seed_token:
  "(ascii ''--seed '' @ to_string (seed (newTask this)) \<in> set (params this)) =
   (seed (newTask this) \<noteq> JNull \<and> seed (newTask this) \<noteq> JStr [])"
proof
  assume "ascii ''--seed '' @ to_string (seed (newTask this)) \<in> set (params this)"
  then have "flag_of (ascii ''--seed '' @ to_string (seed (newTask this)))
               \<in> set (map flag_of (params this))"
    by simp
  then have "ascii ''--seed'' \<in> set (map flag_of (params this))"
    unfolding flag_of_simps .
  then show "seed (newTask this) \<noteq> JNull \<and> seed (newTask this) \<noteq> JStr []"
    unfolding params_seed_flag .
next
  assume "seed (newTask this) \<noteq> JNull \<and> seed (newTask this) \<noteq> JStr []"
  then show "ascii ''--seed '' @ to_string (seed (newTask this)) \<in> set (params this)"
    by (simp add: params_eq)
qed

lemma params_last:
  "last (params this) =
     ascii ''--cf '' @
       (if truthy (camera_fixed (newTask this)) then ascii ''true'' else ascii ''false'')"
  by (simp add: params_eq)

text \<open>
  C1: for every draft, the tokens of the parameter string are the array \<open>params\<close> joined
  by single spaces; \<^verbatim>\<open>--fps 24\<close> is one of them (and so occurs in the string); the
  last one is \<^verbatim>\<open>--cf true\<close> or \<^verbatim>\<open>--cf false\<close> as \<^verbatim>\<open>camera_fixed\<close> is truthy
  or not (and the string ends with it); a token with the flag \<^verbatim>\<open>--seed\<close> is there,
  and it is \<^verbatim>\<open>--seed <seed>\<close>, exactly when the seed is neither null nor the empty
  string; and the flags of the tokens, in their order, are a subsequence of
  \<^verbatim>\<open>--rt, --dur, --fps, --rs, --seed, --cf\<close>, none of them twice.
\<close>

theorem buildParameterString_tokens:
  "buildParameterString this = join (ascii '' '') (params this)
   \<and> ascii ''--fps 24'' \<in> set (params this)
   \<and> sublist (ascii ''--fps 24'') (buildParameterString this)
   \<and> last (params this) =
       ascii ''--cf '' @
         (if truthy (camera_fixed (newTask this)) then ascii ''true'' else ascii ''false'')
   \<and> suffix (last (params this)) (buildParameterString this)
   \<and> (ascii ''--seed'' \<in> set (map flag_of (params this))) =
       (\<not> (seed (newTask this) = JNull \<or> seed (newTask this) = JStr []))
   \<and> (ascii ''--seed '' @ to_string (seed (newTask this)) \<in> set (params this)) =
       (\<not> (seed (newTask this) = JNull \<or> seed (newTask this) = JStr []))
   \<and> subseq (map flag_of (params this)) flag_order
   \<and> distinct (map flag_of (params this))"
proof -
  have joined: "buildParameterString this = join (ascii '' '') (params this)"
    by (simp add: buildParameterString_def)
  have fps: "ascii ''--fps 24'' \<in> set (params this)"
    by (simp add: params_eq)
  have ne: "params this \<noteq> []"
    using fps by auto
  have fps_in: "sublist (ascii ''--fps 24'') (buildParameterString this)"
    unfolding joined by (rule sublist_join [OF fps])
  have cf_last: "suffix (last (params this)) (buildParameterString this)"
    unfolding joined by (rule suffix_join [OF ne])
  have seed_flag: "(ascii ''--seed'' \<in> set (map flag_of (params this))) =
      (\<not> (seed (newTask this) = JNull \<or> seed (newTask this) = JStr []))"
    unfolding params_seed_flag by simp
  have seed_token: "(ascii ''--seed '' @ to_string (seed (newTask this)) \<in> set (params this)) =
      (\<not> (seed (newTask this) = JNull \<or> seed (newTask this) = JStr []))"
    unfolding params_seed_token by simp
  have once: "distinct (map flag_of (params this))"
    unfolding params_flags by (simp add: ascii_def)
  show ?thesis
    by (intro conjI joined fps fps_in params_last cf_last seed_flag seed_token params_order once)
qed

theorem buildParameterString_tokens_witness:
  "buildParameterString sample_v2 = ascii ''--rt 16:9 --dur 5 --fps 24 --rs 720p --seed 7 --cf false''
   \<and> ascii ''--fps 24'' \<in> set (params sample_v2)
   \<and> last (params sample_v2) = ascii ''--cf false''
   \<and> ascii ''--seed 7'' \<in> set (params sample_v2)"
  using buildParameterString_tokens [of sample_v2]
  by (simp add: sample_v2_def data_v2_def default_draft_def params_eq number_to_string_def
      digits.simps ascii_def)

section \<open>Properties of the operations\<close>

lemma trim_empty_iff: "trim s = [] \<longleftrightarrow> blank s"
proof
  assume "blank s"
  then show "trim s = []"
    by (auto simp: trim_def blank_def list_all_iff dest: set_dropWhileD)
next
  assume t: "trim s = []"
  show "blank s"
  proof (rule ccontr)
    assume "\<not> blank s"
    then have ne: "dropWhile is_ws s \<noteq> []"
      by (auto simp: blank_def list_all_iff)
    then have "\<not> is_ws (hd (dropWhile is_ws s))"
      by (rule hd_dropWhile)
    moreover have "hd (dropWhile is_ws s) \<in> set (rev (dropWhile is_ws s))"
      using ne by simp
    ultimately have "dropWhile is_ws (rev (dropWhile is_ws s)) \<noteq> []"
      by (auto simp: dropWhile_eq_Nil_conv)
    with t show False by (simp add: trim_def)
  qed
qed

lemma loadTasks_rejected:
  "loadTasks (Rejected e) this =
     \<lparr>final = this,
      trace = [Request (Get (ascii ''/api/tasks'')), ConsoleError LogLoad (AxiosError e)] @
              showError (LitPlus LoadFailed (error_detail (AxiosError e))),
      raised = None\<rparr>"
  by (simp add: loadTasks_def loadTasks_try_def)

lemma loadTasks_raised: "raised (loadTasks got this) = None"
  by (simp add: loadTasks_def loadTasks_try_def Let_def split: settled.split sum.split)

lemma loadTasks_newTask: "newTask (final (loadTasks got this)) = newTask this"
  by (simp add: loadTasks_def loadTasks_try_def Let_def split: settled.split sum.split)

lemma loadTasks_isCreating: "isCreating (final (loadTasks got this)) = isCreating this"
  by (simp add: loadTasks_def loadTasks_try_def Let_def split: settled.split sum.split)

lemma params_isCreating: "params (this\<lparr>isCreating := b\<rparr>) = params this"
  by (simp add: params_eq)

lemma buildParameterString_isCreating:
  "buildParameterString (this\<lparr>isCreating := b\<rparr>) = buildParameterString this"
  by (simp add: buildParameterString_def params_isCreating)

lemma sample_v2_valid:
  "\<not> blank (prompt (newTask sample_v2)) \<and> truthy (apiKeyConfigured sample_v2)"
  by (simp add: sample_v2_def data_v2_def default_draft_def blank_def is_ws_def ascii_def)

lemma sample_v1_valid:
  "\<not> blank (prompt (newTask sample_v1)) \<and> truthy (apiKeyConfigured sample_v1)"
  by (simp add: sample_v1_def data_v1_def default_image_draft_def blank_def is_ws_def ascii_def)

text \<open>
  C2: when the GET of \<^verbatim>\<open>loadTasks\<close> is rejected, the component, and with it the task
  cache, is what it was before the call, one error toast is shown, and nothing is thrown.
\<close>

theorem loadTasks_failure_keeps_cache:
  "final (loadTasks (Rejected e) this) = this
   \<and> tasks (final (loadTasks (Rejected e) this)) = tasks this
   \<and> toasts Failure (trace (loadTasks (Rejected e) this)) =
       [LitPlus LoadFailed (error_detail (AxiosError e))]
   \<and> raised (loadTasks (Rejected e) this) = None"
  by (simp add: loadTasks_rejected toasts_def showError_def)

theorem loadTasks_failure_keeps_cache_witness:
  "tasks (final (loadTasks (Rejected backend_error) sample_v2)) = one_task
   \<and> toasts Failure (trace (loadTasks (Rejected backend_error) sample_v2)) =
       [LitPlus LoadFailed (JStr (ascii ''quota''))]"
  using loadTasks_failure_keeps_cache [of backend_error sample_v2]
  by (simp add: sample_v2_def data_v2_def backend_error_def error_detail_def response_error_def
      js_or_def ascii_def)

text \<open>
  C4: when the draft passes validation and the POST of \<^verbatim>\<open>createTask\<close> is resolved, the
  draft is the one of \<^verbatim>\<open>data()\<close> afterwards, in both variants: ratio 16:9, duration 5,
  resolution 720p, seed null, camera_fixed false, prompt empty (and, in the first
  variant, the image fields at their defaults too), whatever the refresh that follows
  brings.
\<close>

theorem createTask_success_resets_draft:
  "(\<not> blank (prompt (newTask a)) \<and> truthy (apiKeyConfigured a) \<longrightarrow>
      newTask (final (createTask_v1 (Resolved r) got a)) = default_image_draft
      \<and> ratio default_image_draft = JStr (ascii ''16:9'')
      \<and> duration default_image_draft = JNum 5
      \<and> resolution default_image_draft = JStr (ascii ''720p'')
      \<and> seed default_image_draft = JNull
      \<and> camera_fixed default_image_draft = JBool False
      \<and> prompt default_image_draft = [])
   \<and> (\<not> blank (prompt (newTask b)) \<and> truthy (apiKeyConfigured b) \<longrightarrow>
      newTask (final (createTask_v2 (Resolved r) got b)) = default_draft
      \<and> ratio default_draft = JStr (ascii ''16:9'')
      \<and> duration default_draft = JNum 5
      \<and> resolution default_draft = JStr (ascii ''720p'')
      \<and> seed default_draft = JNull
      \<and> camera_fixed default_draft = JBool False
      \<and> prompt default_draft = [])"
proof -
  have v1: "newTask (final (createTask_v1 (Resolved r) got a)) = default_image_draft"
    if "\<not> blank (prompt (newTask a))" "truthy (apiKeyConfigured a)"
    using that
    by (simp add: createTask_v1_def createTask_v1_try_def trim_empty_iff Let_def
        loadTasks_raised loadTasks_newTask default_image_draft_def)
  have v2: "newTask (final (createTask_v2 (Resolved r) got b)) = default_draft"
    if "\<not> blank (prompt (newTask b))" "truthy (apiKeyConfigured b)"
    using that
    by (simp add: createTask_v2_def createTask_v2_try_def trim_empty_iff Let_def
        loadTasks_raised loadTasks_newTask default_draft_def)
  show ?thesis
    using v1 v2 by (simp add: default_draft_def default_image_draft_def)
qed

theorem createTask_success_resets_draft_witness:
  "\<not> blank (prompt (newTask sample_v1)) \<and> truthy (apiKeyConfigured sample_v1)
   \<and> newTask (final (createTask_v1 (Resolved no_content) (Resolved two_tasks) sample_v1)) =
       default_image_draft
   \<and> \<not> blank (prompt (newTask sample_v2)) \<and> truthy (apiKeyConfigured sample_v2)
   \<and> newTask (final (createTask_v2 (Resolved no_content) (Rejected network_error) sample_v2)) =
       default_draft"
  using createTask_success_resets_draft
    [of sample_v1 no_content "Resolved two_tasks" sample_v2]
    createTask_success_resets_draft
    [of sample_v1 no_content "Rejected network_error" sample_v2]
    sample_v1_valid sample_v2_valid
  by simp

text \<open>
  C9: when the draft passes validation and the POST of \<^verbatim>\<open>createTask\<close> is rejected, the
  draft is what it was before the call and \<^verbatim>\<open>isCreating\<close> is false, in both variants.
\<close>

theorem createTask_failure_keeps_draft:
  "(\<not> blank (prompt (newTask a)) \<and> truthy (apiKeyConfigured a) \<longrightarrow>
      newTask (final (createTask_v1 (Rejected e) got a)) = newTask a
      \<and> \<not> isCreating (final (createTask_v1 (Rejected e) got a)))
   \<and> (\<not> blank (prompt (newTask b)) \<and> truthy (apiKeyConfigured b) \<longrightarrow>
      newTask (final (createTask_v2 (Rejected e) got b)) = newTask b
      \<and> \<not> isCreating (final (createTask_v2 (Rejected e) got b)))"
  by (simp add: createTask_v1_def createTask_v1_try_def createTask_v2_def createTask_v2_try_def
      trim_empty_iff Let_def)

theorem createTask_failure_keeps_draft_witness:
  "\<not> blank (prompt (newTask sample_v1)) \<and> truthy (apiKeyConfigured sample_v1)
   \<and> newTask (final (createTask_v1 (Rejected network_error) (Resolved two_tasks) sample_v1)) =
       newTask sample_v1
   \<and> \<not> isCreating (final (createTask_v1 (Rejected network_error) (Resolved two_tasks) sample_v1))
   \<and> \<not> blank (prompt (newTask sample_v2)) \<and> truthy (apiKeyConfigured sample_v2)
   \<and> newTask (final (createTask_v2 (Rejected network_error) (Resolved two_tasks) sample_v2)) =
       newTask sample_v2
   \<and> \<not> isCreating (final (createTask_v2 (Rejected network_error) (Resolved two_tasks) sample_v2))"
  using createTask_failure_keeps_draft
    [of sample_v1 network_error "Resolved two_tasks" sample_v2]
    sample_v1_valid sample_v2_valid
  by simp

lemma requests_simps:
  "requests [] = []"
  "requests (Request q # evs) = q # requests evs"
  "requests (ConsoleError l x # evs) = requests evs"
  "requests (Toast k m # evs) = requests evs"
  "requests (SetTimeout cb n # evs) = requests evs"
  "requests (Confirm l # evs) = requests evs"
  "requests (Reload # evs) = requests evs"
  "requests (xs @ ys) = requests xs @ requests ys"
  by (simp_all add: requests_def)

lemma toasts_simps:
  "toasts k [] = []"
  "toasts k (Request q # evs) = toasts k evs"
  "toasts k (ConsoleError l x # evs) = toasts k evs"
  "toasts k (Toast k' m # evs) = (if k' = k then m # toasts k evs else toasts k evs)"
  "toasts k (SetTimeout cb n # evs) = toasts k evs"
  "toasts k (Confirm l # evs) = toasts k evs"
  "toasts k (Reload # evs) = toasts k evs"
  "toasts k (xs @ ys) = toasts k xs @ toasts k ys"
  by (simp_all add: toasts_def)

lemma loadTasks_requests: "requests (trace (loadTasks got this)) = [Get (ascii ''/api/tasks'')]"
  by (simp add: loadTasks_def loadTasks_try_def Let_def requests_simps showError_def
      split: settled.split sum.split)

lemma prompt_of_simps:
  "prompt_of (Get u) = []"
  "prompt_of (Delete u) = []"
  "prompt_of (Post (ascii ''/api/tasks'') (JObj ((ascii ''prompt'', v) # kvs))) = [v]"
  by (simp_all add: prompt_of_def)

lemma createTask_v2_requests:
  "\<not> blank (prompt (newTask b)) \<Longrightarrow> truthy (apiKeyConfigured b) \<Longrightarrow>
   requests (trace (createTask_v2 posted got b)) =
     Post (ascii ''/api/tasks'')
       (JObj [(ascii ''prompt'',
               JStr (trim (prompt (newTask b)) @ ascii '' '' @ buildParameterString b))]) #
     (case posted of Resolved r \<Rightarrow> [Get (ascii ''/api/tasks'')] | Rejected e \<Rightarrow> [])"
  by (cases posted)
     (simp_all add: createTask_v2_def createTask_v2_try_def trim_empty_iff Let_def
       loadTasks_raised buildParameterString_isCreating requests_simps loadTasks_requests
       showSuccess_def showError_def)

lemma createTask_v1_requests:
  "\<not> blank (prompt (newTask a)) \<Longrightarrow> truthy (apiKeyConfigured a) \<Longrightarrow>
   requests (trace (createTask_v1 posted got a)) =
     Post (ascii ''/api/tasks'')
       (JObj (requestData (a\<lparr>isCreating := True\<rparr>)
               (trim (prompt (newTask a)) @ ascii '' '' @ buildParameterString a))) #
     (case posted of Resolved r \<Rightarrow> [Get (ascii ''/api/tasks'')] | Rejected e \<Rightarrow> [])"
  by (cases posted)
     (simp_all add: createTask_v1_def createTask_v1_try_def trim_empty_iff Let_def
       loadTasks_raised buildParameterString_isCreating requests_simps loadTasks_requests
       showSuccess_def showError_def)

lemma requestData_prompt:
  "\<exists>kvs. requestData this full = (ascii ''prompt'', JStr full) # kvs"
  by (simp add: requestData_def Let_def)

text \<open>
  C3: a blank prompt stops \<^verbatim>\<open>createTask\<close>, a blank key stops \<^verbatim>\<open>saveSettings\<close>,
  and a component with no key configured stops \<^verbatim>\<open>createTask\<close>: no request is
  issued, one validation message is shown (for \<^verbatim>\<open>createTask\<close> with no key, the one
  about the prompt when the prompt is blank too, since that check comes first), and the
  operation returns.
\<close>

theorem validation_blocks_requests:
  "(blank (prompt (newTask a)) \<longrightarrow>
      requests (trace (createTask_v1 posted got a)) = []
      \<and> toasts Failure (trace (createTask_v1 posted got a)) = [Lit EnterPrompt]
      \<and> raised (createTask_v1 posted got a) = None)
   \<and> (blank (prompt (newTask b)) \<longrightarrow>
      requests (trace (createTask_v2 posted got b)) = []
      \<and> toasts Failure (trace (createTask_v2 posted got b)) = [Lit EnterPrompt]
      \<and> raised (createTask_v2 posted got b) = None)
   \<and> (\<not> truthy (apiKeyConfigured a) \<longrightarrow>
      requests (trace (createTask_v1 posted got a)) = []
      \<and> toasts Failure (trace (createTask_v1 posted got a)) =
          [Lit (if blank (prompt (newTask a)) then EnterPrompt else ConfigureApiKey)]
      \<and> raised (createTask_v1 posted got a) = None)
   \<and> (\<not> truthy (apiKeyConfigured b) \<longrightarrow>
      requests (trace (createTask_v2 posted got b)) = []
      \<and> toasts Failure (trace (createTask_v2 posted got b)) =
          [Lit (if blank (prompt (newTask b)) then EnterPrompt else ConfigureApiKey)]
      \<and> raised (createTask_v2 posted got b) = None)
   \<and> (blank (apiKey c) \<longrightarrow>
      requests (trace (saveSettings posted reload c)) = []
      \<and> toasts Failure (trace (saveSettings posted reload c)) = [Lit EnterApiKey]
      \<and> raised (saveSettings posted reload c) = None)"
  by (simp add: createTask_v1_def createTask_v2_def saveSettings_def trim_empty_iff
      requests_simps toasts_simps showError_def)

theorem validation_blocks_requests_witness:
  "blank (prompt (newTask blank_v1))
   \<and> requests (trace (createTask_v1 (Resolved no_content) (Resolved two_tasks) blank_v1)) = []
   \<and> toasts Failure (trace (createTask_v1 (Resolved no_content) (Resolved two_tasks) blank_v1)) =
       [Lit EnterPrompt]
   \<and> \<not> truthy (apiKeyConfigured data_v2)
   \<and> requests (trace (createTask_v2 (Resolved no_content) (Resolved two_tasks) data_v2)) = []
   \<and> blank (apiKey data_v2)
   \<and> requests (trace (saveSettings (Resolved no_content) True data_v2)) = []
   \<and> toasts Failure (trace (saveSettings (Resolved no_content) True data_v2)) = [Lit EnterApiKey]"
proof -
  have h1: "blank (prompt (newTask blank_v1))"
    by (simp add: blank_v1_def sample_v1_def data_v1_def default_image_draft_def blank_def
        is_ws_def ascii_def)
  have h2: "\<not> truthy (apiKeyConfigured data_v2)"
    by (simp add: data_v2_def)
  have h3: "blank (apiKey data_v2)"
    by (simp add: data_v2_def blank_def)
  show ?thesis
    using h1 h2 h3
      validation_blocks_requests
        [of blank_v1 "Resolved no_content" "Resolved two_tasks" data_v2 data_v2 True]
    by simp
qed

lemma dropWhile_id_iff: "dropWhile P xs = xs \<longleftrightarrow> xs = [] \<or> \<not> P (hd xs)"
proof (cases xs)
  case Nil
  then show ?thesis by simp
next
  case (Cons x ys)
  have "dropWhile P ys \<noteq> x # ys"
    using length_dropWhile_le [of P ys] by (auto dest: arg_cong [where f = length])
  with Cons show ?thesis by simp
qed

text \<open>\<open>trim\<close> changes a string exactly when it starts or ends with whitespace.\<close>

lemma trim_id_iff: "trim s = s \<longleftrightarrow> s = [] \<or> (\<not> is_ws (hd s) \<and> \<not> is_ws (last s))"
proof (cases "s = []")
  case True
  then show ?thesis by (simp add: trim_def)
next
  case False
  show ?thesis
  proof
    assume t: "trim s = s"
    have "length (trim s) \<le> length (dropWhile is_ws s)"
      unfolding trim_def using length_dropWhile_le [of is_ws "rev (dropWhile is_ws s)"] by simp
    with t have le: "length s \<le> length (dropWhile is_ws s)"
      by simp
    have "length (takeWhile is_ws s) + length (dropWhile is_ws s) = length s"
      by (metis length_append takeWhile_dropWhile_id)
    with le have "length (takeWhile is_ws s) = 0"
      by linarith
    then have "takeWhile is_ws s = []"
      by (simp only: length_0_conv)
    then have d: "dropWhile is_ws s = s"
      by (metis append_Nil takeWhile_dropWhile_id)
    with t have "dropWhile is_ws (rev s) = rev s"
      by (metis trim_def rev_rev_ident)
    with d False show "s = [] \<or> (\<not> is_ws (hd s) \<and> \<not> is_ws (last s))"
      by (simp add: dropWhile_id_iff hd_rev)
  next
    assume "s = [] \<or> (\<not> is_ws (hd s) \<and> \<not> is_ws (last s))"
    with False have "dropWhile is_ws s = s" "dropWhile is_ws (rev s) = rev s"
      by (simp_all add: dropWhile_id_iff hd_rev)
    then show "trim s = s" by (simp add: trim_def)
  qed
qed

lemma createTask_v1_prompts:
  assumes "\<not> blank (prompt (newTask a)) \<and> truthy (apiKeyConfigured a)"
  shows "submitted_prompts (trace (createTask_v1 posted got a)) =
           [JStr (trim (prompt (newTask a)) @ ascii '' '' @ buildParameterString a)]"
proof -
  obtain kvs where
    "requestData (a\<lparr>isCreating := True\<rparr>)
       (trim (prompt (newTask a)) @ ascii '' '' @ buildParameterString a) =
     (ascii ''prompt'',
      JStr (trim (prompt (newTask a)) @ ascii '' '' @ buildParameterString a)) # kvs"
    using requestData_prompt by blast
  then show ?thesis
    using assms
    by (simp add: submitted_prompts_def createTask_v1_requests prompt_of_simps
        split: settled.split)
qed

lemma createTask_v2_prompts:
  assumes "\<not> blank (prompt (newTask b)) \<and> truthy (apiKeyConfigured b)"
  shows "submitted_prompts (trace (createTask_v2 posted got b)) =
           [JStr (trim (prompt (newTask b)) @ ascii '' '' @ buildParameterString b)]"
  using assms
  by (simp add: submitted_prompts_def createTask_v2_requests prompt_of_simps
      split: settled.split)

text \<open>
  C5, as the code has it: when the draft passes validation, \<^verbatim>\<open>createTask\<close> posts one
  body to \<^verbatim>\<open>/api/tasks\<close>, and its prompt is the user's prompt with the whitespace at
  both ends removed, one space, and the parameter string of the draft. That is the raw
  prompt, the space and the parameter string exactly when the prompt neither starts nor
  ends with whitespace.
\<close>

theorem createTask_submits_trimmed_prompt:
  "(\<not> blank (prompt (newTask a)) \<and> truthy (apiKeyConfigured a) \<longrightarrow>
      submitted_prompts (trace (createTask_v1 posted got a)) =
        [JStr (trim (prompt (newTask a)) @ ascii '' '' @ buildParameterString a)]
      \<and> (submitted_prompts (trace (createTask_v1 posted got a)) =
           [JStr (prompt (newTask a) @ ascii '' '' @ buildParameterString a)]) =
          (\<not> is_ws (hd (prompt (newTask a))) \<and> \<not> is_ws (last (prompt (newTask a)))))
   \<and> (\<not> blank (prompt (newTask b)) \<and> truthy (apiKeyConfigured b) \<longrightarrow>
      submitted_prompts (trace (createTask_v2 posted got b)) =
        [JStr (trim (prompt (newTask b)) @ ascii '' '' @ buildParameterString b)]
      \<and> (submitted_prompts (trace (createTask_v2 posted got b)) =
           [JStr (prompt (newTask b) @ ascii '' '' @ buildParameterString b)]) =
          (\<not> is_ws (hd (prompt (newTask b))) \<and> \<not> is_ws (last (prompt (newTask b)))))"
proof -
  have raw: "(trim s = s) = (\<not> is_ws (hd s) \<and> \<not> is_ws (last s))"
    if "\<not> blank s" for s :: jsstring
  proof -
    from that have "s \<noteq> []" by (auto simp: blank_def)
    then show ?thesis by (simp add: trim_id_iff)
  qed
  show ?thesis
    by (simp add: createTask_v1_prompts createTask_v2_prompts raw)
qed

lemma trim_sample: "trim (ascii '' a cat '') = ascii ''a cat''"
  by (simp add: trim_def is_ws_def ascii_def)

lemma sample_v2_parameters:
  "buildParameterString sample_v2 =
     ascii ''--rt 16:9 --dur 5 --fps 24 --rs 720p --seed 7 --cf false''"
  by (simp add: buildParameterString_def sample_v2_def data_v2_def default_draft_def params_eq
      number_to_string_def digits.simps ascii_def)

lemma sample_v1_parameters:
  "buildParameterString sample_v1 =
     ascii ''--rt 16:9 --dur 5 --fps 24 --rs 720p --seed 7 --cf false''"
  by (simp add: buildParameterString_def sample_v1_def data_v1_def default_image_draft_def
      params_eq number_to_string_def digits.simps ascii_def)

lemma sample_prompts:
  "prompt (newTask sample_v1) = ascii '' a cat ''"
  "prompt (newTask sample_v2) = ascii '' a cat ''"
  by (simp_all add: sample_v1_def data_v1_def default_image_draft_def sample_v2_def data_v2_def
      default_draft_def)

theorem createTask_submits_trimmed_prompt_witness:
  "\<not> blank (prompt (newTask sample_v1)) \<and> truthy (apiKeyConfigured sample_v1)
   \<and> submitted_prompts
       (trace (createTask_v1 (Rejected network_error) (Resolved two_tasks) sample_v1)) =
       [JStr (ascii ''a cat --rt 16:9 --dur 5 --fps 24 --rs 720p --seed 7 --cf false'')]
   \<and> \<not> blank (prompt (newTask sample_v2)) \<and> truthy (apiKeyConfigured sample_v2)
   \<and> submitted_prompts
       (trace (createTask_v2 (Rejected network_error) (Resolved two_tasks) sample_v2)) =
       [JStr (ascii ''a cat --rt 16:9 --dur 5 --fps 24 --rs 720p --seed 7 --cf false'')]"
proof -
  have "trim (prompt (newTask sample_v1)) @ ascii '' '' @ buildParameterString sample_v1 =
          ascii ''a cat --rt 16:9 --dur 5 --fps 24 --rs 720p --seed 7 --cf false''"
       "trim (prompt (newTask sample_v2)) @ ascii '' '' @ buildParameterString sample_v2 =
          ascii ''a cat --rt 16:9 --dur 5 --fps 24 --rs 720p --seed 7 --cf false''"
    unfolding sample_prompts trim_sample sample_v1_parameters sample_v2_parameters
    by (simp_all add: ascii_def)
  then show ?thesis
    using createTask_submits_trimmed_prompt
        [of sample_v1 "Rejected network_error" "Resolved two_tasks" sample_v2]
      sample_v1_valid sample_v2_valid
    by simp
qed

text \<open>
  C5 as the claim words it fails: the draft whose prompt is \<^verbatim>\<open>a cat\<close> with a space on
  each side passes validation, and the prompt posted starts with \<^verbatim>\<open>a cat\<close>, not with
  the space of the raw text.
\<close>

theorem createTask_raw_prompt_counterexample:
  "\<not> blank (prompt (newTask sample_v2)) \<and> truthy (apiKeyConfigured sample_v2)
   \<and> submitted_prompts
       (trace (createTask_v2 (Resolved no_content) (Resolved two_tasks) sample_v2)) =
       [JStr (ascii ''a cat --rt 16:9 --dur 5 --fps 24 --rs 720p --seed 7 --cf false'')]
   \<and> prompt (newTask sample_v2) @ ascii '' '' @ buildParameterString sample_v2 =
       ascii '' a cat  --rt 16:9 --dur 5 --fps 24 --rs 720p --seed 7 --cf false''
   \<and> submitted_prompts
       (trace (createTask_v2 (Resolved no_content) (Resolved two_tasks) sample_v2)) \<noteq>
       [JStr (prompt (newTask sample_v2) @ ascii '' '' @ buildParameterString sample_v2)]"
proof -
  have v: "\<not> blank (prompt (newTask sample_v2))" "truthy (apiKeyConfigured sample_v2)"
    using sample_v2_valid by simp_all
  have "submitted_prompts
       (trace (createTask_v2 (Resolved no_content) (Resolved two_tasks) sample_v2)) =
       [JStr (trim (prompt (newTask sample_v2)) @ ascii '' '' @ buildParameterString sample_v2)]"
    using v by (simp add: createTask_v2_prompts)
  then show ?thesis
    unfolding sample_v2_parameters sample_prompts trim_sample
    using v by (simp add: ascii_def sample_prompts)
qed

text \<open>
  C7: when the user does not confirm, \<^verbatim>\<open>deleteTask\<close> issues no request and leaves the
  component, and with it the task cache, as it was, for every task id.
\<close>

theorem deleteTask_needs_confirmation:
  "final (deleteTask False deleted got taskId this) = this
   \<and> tasks (final (deleteTask False deleted got taskId this)) = tasks this
   \<and> requests (trace (deleteTask False deleted got taskId this)) = []
   \<and> raised (deleteTask False deleted got taskId this) = None"
  by (simp add: deleteTask_def requests_simps)

theorem deleteTask_needs_confirmation_witness:
  "tasks (final (deleteTask False (Resolved no_content) (Resolved two_tasks)
                   (JStr (ascii ''t1'')) sample_v2)) = one_task
   \<and> requests (trace (deleteTask False (Resolved no_content) (Resolved two_tasks)
                   (JStr (ascii ''t1'')) sample_v2)) = []"
  using deleteTask_needs_confirmation
    [of "Resolved no_content" "Resolved two_tasks" "JStr (ascii ''t1'')" sample_v2]
  by (simp add: sample_v2_def data_v2_def)

lemma get_prop_total:
  "v \<noteq> JNull \<Longrightarrow> v \<noteq> JUndefined \<Longrightarrow> \<exists>w. get_prop v p = Inr w"
  by (cases v) simp_all

text \<open>
  C10, as the code has it: when the GET of \<^verbatim>\<open>loadTasks\<close> is resolved with a body that
  is neither null nor undefined, the cache becomes the body's \<^verbatim>\<open>tasks\<close> when that is
  truthy and the empty array otherwise, and no error is shown; for a body that is an
  object, the cache is the empty array when the object has no \<^verbatim>\<open>tasks\<close> property or a
  falsy one. When the body is null or undefined, reading \<^verbatim>\<open>tasks\<close> throws inside the
  \<^verbatim>\<open>try\<close>: the component is left as it was and the load-failed toast is shown.
\<close>

theorem loadTasks_success_replaces_cache:
  "(data r \<noteq> JNull \<and> data r \<noteq> JUndefined \<longrightarrow>
     (\<exists>v. get_prop (data r) (ascii ''tasks'') = Inr v
        \<and> tasks (final (loadTasks (Resolved r) this)) = (if truthy v then v else JArr []))
     \<and> toasts Failure (trace (loadTasks (Resolved r) this)) = [])
   \<and> (data r = JObj kvs \<longrightarrow>
       tasks (final (loadTasks (Resolved r) this)) =
         (case map_of kvs (ascii ''tasks'') of
            None \<Rightarrow> JArr []
          | Some v \<Rightarrow> if truthy v then v else JArr []))
   \<and> (data r = JNull \<or> data r = JUndefined \<longrightarrow>
       final (loadTasks (Resolved r) this) = this
       \<and> toasts Failure (trace (loadTasks (Resolved r) this)) =
           [LitPlus LoadFailed (error_message (TypeError (data r) (ascii ''tasks'')))])"
proof (intro conjI impI)
  assume "data r \<noteq> JNull \<and> data r \<noteq> JUndefined"
  then obtain w where w: "get_prop (data r) (ascii ''tasks'') = Inr w"
    using get_prop_total by blast
  then show "\<exists>v. get_prop (data r) (ascii ''tasks'') = Inr v
        \<and> tasks (final (loadTasks (Resolved r) this)) = (if truthy v then v else JArr [])"
    by (simp add: loadTasks_def loadTasks_try_def js_or_def)
  from w show "toasts Failure (trace (loadTasks (Resolved r) this)) = []"
    by (simp add: loadTasks_def loadTasks_try_def toasts_simps)
next
  assume "data r = JObj kvs"
  then show "tasks (final (loadTasks (Resolved r) this)) =
         (case map_of kvs (ascii ''tasks'') of
            None \<Rightarrow> JArr []
          | Some v \<Rightarrow> if truthy v then v else JArr [])"
    by (simp add: loadTasks_def loadTasks_try_def js_or_def split: option.split)
next
  assume "data r = JNull \<or> data r = JUndefined"
  then show "final (loadTasks (Resolved r) this) = this"
    by (auto simp: loadTasks_def loadTasks_try_def)
next
  assume "data r = JNull \<or> data r = JUndefined"
  then show "toasts Failure (trace (loadTasks (Resolved r) this)) =
           [LitPlus LoadFailed (error_message (TypeError (data r) (ascii ''tasks'')))]"
    by (auto simp: loadTasks_def loadTasks_try_def toasts_simps showError_def error_detail_def
        response_error_def js_or_def error_message_def)
qed

theorem loadTasks_success_replaces_cache_witness:
  "tasks (final (loadTasks (Resolved no_content) sample_v2)) = JArr []
   \<and> tasks (final (loadTasks (Resolved two_tasks) sample_v2)) =
       JArr [JObj [(ascii ''id'', JStr (ascii ''t1''))], JObj [(ascii ''id'', JStr (ascii ''t2''))]]
   \<and> tasks (final (loadTasks (Resolved \<lparr>data = JObj [(ascii ''tasks'', JNull)]\<rparr>) sample_v2)) =
       JArr []
   \<and> final (loadTasks (Resolved \<lparr>data = JUndefined\<rparr>) sample_v2) = sample_v2"
  using loadTasks_success_replaces_cache [where r = no_content and kvs = "[]" and this = sample_v2]
    loadTasks_success_replaces_cache
      [where r = two_tasks and this = sample_v2
         and kvs = "[(ascii ''tasks'', JArr [JObj [(ascii ''id'', JStr (ascii ''t1''))],
                                             JObj [(ascii ''id'', JStr (ascii ''t2''))]])]"]
    loadTasks_success_replaces_cache
      [where r = "\<lparr>data = JObj [(ascii ''tasks'', JNull)]\<rparr>" and this = sample_v2
         and kvs = "[(ascii ''tasks'', JNull)]"]
    loadTasks_success_replaces_cache
      [where r = "\<lparr>data = JUndefined\<rparr>" and this = sample_v2 and kvs = "[]"]
  by (simp add: no_content_def two_tasks_def)

text \<open>
  C10 as the claim words it fails: the GET is resolved, the body is null and so has no
  \<^verbatim>\<open>tasks\<close>, and the cache keeps its one task.
\<close>

theorem loadTasks_null_body_counterexample:
  "tasks (final (loadTasks (Resolved \<lparr>data = JNull\<rparr>) sample_v2)) = one_task
   \<and> one_task \<noteq> JArr []"
  by (simp add: loadTasks_def loadTasks_try_def sample_v2_def data_v2_def one_task_def)

text \<open>
  C6, as the code has it: no operation lets a rejected request through to its caller.
  \<^verbatim>\<open>loadTasks\<close>, \<^verbatim>\<open>createTask\<close> (both variants), \<^verbatim>\<open>deleteTask\<close> and
  \<^verbatim>\<open>saveSettings\<close> show one error toast, whose text ends with the backend's error
  field or else the error's message; this holds for their own request and, in
  \<^verbatim>\<open>createTask\<close> and \<^verbatim>\<open>deleteTask\<close>, for the refresh that follows it.
  \<^verbatim>\<open>checkSettings\<close> writes the error to the console and shows no toast.
\<close>

theorem request_failures_are_caught:
  "raised (loadTasks (Rejected e) this) = None
   \<and> toasts Failure (trace (loadTasks (Rejected e) this)) =
       [LitPlus LoadFailed (error_detail (AxiosError e))]
   \<and> (\<not> blank (prompt (newTask a)) \<and> truthy (apiKeyConfigured a) \<longrightarrow>
       raised (createTask_v1 (Rejected e) got a) = None
       \<and> toasts Failure (trace (createTask_v1 (Rejected e) got a)) =
           [LitPlus CreateFailed (error_detail (AxiosError e))]
       \<and> raised (createTask_v1 (Resolved r) (Rejected e) a) = None
       \<and> toasts Failure (trace (createTask_v1 (Resolved r) (Rejected e) a)) =
           [LitPlus LoadFailed (error_detail (AxiosError e))])
   \<and> (\<not> blank (prompt (newTask b)) \<and> truthy (apiKeyConfigured b) \<longrightarrow>
       raised (createTask_v2 (Rejected e) got b) = None
       \<and> toasts Failure (trace (createTask_v2 (Rejected e) got b)) =
           [LitPlus CreateFailed (error_detail (AxiosError e))]
       \<and> raised (createTask_v2 (Resolved r) (Rejected e) b) = None
       \<and> toasts Failure (trace (createTask_v2 (Resolved r) (Rejected e) b)) =
           [LitPlus LoadFailed (error_detail (AxiosError e))])
   \<and> raised (deleteTask True (Rejected e) got taskId this) = None
   \<and> toasts Failure (trace (deleteTask True (Rejected e) got taskId this)) =
       [LitPlus DeleteFailed (error_detail (AxiosError e))]
   \<and> raised (deleteTask True (Resolved r) (Rejected e) taskId this) = None
   \<and> toasts Failure (trace (deleteTask True (Resolved r) (Rejected e) taskId this)) =
       [LitPlus LoadFailed (error_detail (AxiosError e))]
   \<and> (\<not> blank (apiKey this) \<longrightarrow>
       raised (saveSettings (Rejected e) reload this) = None
       \<and> toasts Failure (trace (saveSettings (Rejected e) reload this)) =
           [LitPlus SaveFailed (error_detail (AxiosError e))])
   \<and> raised (checkSettings (Rejected e) this) = None
   \<and> trace (checkSettings (Rejected e) this) =
       [Request (Get (ascii ''/api/settings'')), ConsoleError LogCheck (AxiosError e)]
   \<and> toasts Failure (trace (checkSettings (Rejected e) this)) = []
   \<and> toasts Success (trace (checkSettings (Rejected e) this)) = []"
proof -
  have load: "raised (loadTasks (Rejected e) this) = None
      \<and> toasts Failure (trace (loadTasks (Rejected e) this)) =
          [LitPlus LoadFailed (error_detail (AxiosError e))]"
    by (simp add: loadTasks_rejected toasts_simps showError_def)
  have v1: "raised (createTask_v1 (Rejected e) got a) = None
       \<and> toasts Failure (trace (createTask_v1 (Rejected e) got a)) =
           [LitPlus CreateFailed (error_detail (AxiosError e))]
       \<and> raised (createTask_v1 (Resolved r) (Rejected e) a) = None
       \<and> toasts Failure (trace (createTask_v1 (Resolved r) (Rejected e) a)) =
           [LitPlus LoadFailed (error_detail (AxiosError e))]"
    if "\<not> blank (prompt (newTask a)) \<and> truthy (apiKeyConfigured a)"
    using that
    by (simp add: createTask_v1_def createTask_v1_try_def trim_empty_iff Let_def
        loadTasks_rejected toasts_simps showError_def showSuccess_def)
  have v2: "raised (createTask_v2 (Rejected e) got b) = None
       \<and> toasts Failure (trace (createTask_v2 (Rejected e) got b)) =
           [LitPlus CreateFailed (error_detail (AxiosError e))]
       \<and> raised (createTask_v2 (Resolved r) (Rejected e) b) = None
       \<and> toasts Failure (trace (createTask_v2 (Resolved r) (Rejected e) b)) =
           [LitPlus LoadFailed (error_detail (AxiosError e))]"
    if "\<not> blank (prompt (newTask b)) \<and> truthy (apiKeyConfigured b)"
    using that
    by (simp add: createTask_v2_def createTask_v2_try_def trim_empty_iff Let_def
        loadTasks_rejected toasts_simps showError_def showSuccess_def)
  have del: "raised (deleteTask True (Rejected e) got taskId this) = None
      \<and> toasts Failure (trace (deleteTask True (Rejected e) got taskId this)) =
          [LitPlus DeleteFailed (error_detail (AxiosError e))]
      \<and> raised (deleteTask True (Resolved r) (Rejected e) taskId this) = None
      \<and> toasts Failure (trace (deleteTask True (Resolved r) (Rejected e) taskId this)) =
          [LitPlus LoadFailed (error_detail (AxiosError e))]"
    by (simp add: deleteTask_def deleteTask_try_def Let_def loadTasks_rejected toasts_simps
        showError_def showSuccess_def)
  have save: "raised (saveSettings (Rejected e) reload this) = None
       \<and> toasts Failure (trace (saveSettings (Rejected e) reload this)) =
           [LitPlus SaveFailed (error_detail (AxiosError e))]"
    if "\<not> blank (apiKey this)"
    using that
    by (simp add: saveSettings_def saveSettings_try_def trim_empty_iff Let_def toasts_simps
        showError_def)
  have check: "raised (checkSettings (Rejected e) this) = None
      \<and> trace (checkSettings (Rejected e) this) =
          [Request (Get (ascii ''/api/settings'')), ConsoleError LogCheck (AxiosError e)]
      \<and> toasts Failure (trace (checkSettings (Rejected e) this)) = []
      \<and> toasts Success (trace (checkSettings (Rejected e) this)) = []"
    by (simp add: checkSettings_def checkSettings_try_def toasts_simps)
  show ?thesis
    using load v1 v2 del save check by blast
qed

theorem request_failures_are_caught_witness:
  "\<not> blank (prompt (newTask sample_v1)) \<and> truthy (apiKeyConfigured sample_v1)
   \<and> \<not> blank (prompt (newTask sample_v2)) \<and> truthy (apiKeyConfigured sample_v2)
   \<and> \<not> blank (apiKey sample_v2)
   \<and> toasts Failure (trace (createTask_v1 (Rejected backend_error) (Resolved two_tasks) sample_v1)) =
       [LitPlus CreateFailed (JStr (ascii ''quota''))]
   \<and> toasts Failure (trace (createTask_v2 (Rejected backend_error) (Resolved two_tasks) sample_v2)) =
       [LitPlus CreateFailed (JStr (ascii ''quota''))]
   \<and> toasts Failure (trace (saveSettings (Rejected backend_error) False sample_v2)) =
       [LitPlus SaveFailed (JStr (ascii ''quota''))]
   \<and> toasts Failure (trace (deleteTask True (Rejected backend_error) (Resolved two_tasks)
                             (JStr (ascii ''t1'')) sample_v2)) =
       [LitPlus DeleteFailed (JStr (ascii ''quota''))]
   \<and> toasts Failure (trace (checkSettings (Rejected backend_error) sample_v2)) = []"
proof -
  have key: "\<not> blank (apiKey sample_v2)"
    by (simp add: sample_v2_def data_v2_def blank_def is_ws_def ascii_def)
  have detail: "error_detail (AxiosError backend_error) = JStr (ascii ''quota'')"
    by (simp add: backend_error_def error_detail_def response_error_def js_or_def ascii_def)
  show ?thesis
    using key sample_v1_valid sample_v2_valid
      request_failures_are_caught
        [where e = backend_error and this = sample_v2 and a = sample_v1 and b = sample_v2
           and got = "Resolved two_tasks" and r = no_content
           and taskId = "JStr (ascii ''t1'')" and reload = False]
    by (simp add: detail toasts_simps)
qed

text \<open>
  C6 as the claim words it fails for \<^verbatim>\<open>checkSettings\<close>: with the GET of
  \<^verbatim>\<open>/api/settings\<close> rejected, it returns having shown no toast of either kind.
\<close>

theorem checkSettings_silent_counterexample:
  "trace (checkSettings (Rejected network_error) data_v2) =
     [Request (Get (ascii ''/api/settings'')), ConsoleError LogCheck (AxiosError network_error)]
   \<and> toasts Failure (trace (checkSettings (Rejected network_error) data_v2)) = []
   \<and> toasts Success (trace (checkSettings (Rejected network_error) data_v2)) = []"
  by (simp add: checkSettings_def checkSettings_try_def toasts_simps)

end
